theory Spec2Isabelle
  imports Complex_Main
begin

section \<open>Python strings, bytes and exceptions\<close>

text \<open>
  A Python \<open>str\<close> is a sequence of Unicode code points, so a character is modelled as its
  code point (a natural number) and a string as a list of them. A \<open>bytes\<close> object is a
  list of 8-bit characters, which is what the HOL type \<open>string\<close> is. The abbreviation
  \<open>str\<close> writes an ASCII literal of the source as a Python string.
\<close>

type_synonym pychar = nat
type_synonym pystr = "pychar list"
type_synonym bytes = "char list"

abbreviation str :: "string \<Rightarrow> pystr" where
  "str s \<equiv> map of_char s"

definition NL :: pychar where "NL = 10"
definition CR :: pychar where "CR = 13"
definition SP :: pychar where "SP = 32"
definition DOT :: pychar where "DOT = 46"
definition SLASH :: pychar where "SLASH = 47"

text \<open>
  The characters that \<open>str.strip()\<close> removes: the code points for which CPython's
  \<open>str.isspace\<close> holds (tab to carriage return, the four information separators, space,
  NEL, no-break space and the Unicode space separators).
\<close>

definition isspace :: "pychar \<Rightarrow> bool" where
  "isspace c \<longleftrightarrow>
     (9 \<le> c \<and> c \<le> 13) \<or> (28 \<le> c \<and> c \<le> 32) \<or> c = 133 \<or> c = 160 \<or> c = 5760 \<or>
     (8192 \<le> c \<and> c \<le> 8202) \<or> c = 8232 \<or> c = 8233 \<or> c = 8239 \<or> c = 8287 \<or> c = 12288"

text \<open>\<open>s.strip()\<close>: drop the leading and the trailing whitespace.\<close>

definition strip :: "pystr \<Rightarrow> pystr" where
  "strip s = rev (dropWhile isspace (rev (dropWhile isspace s)))"

text \<open>\<open>s.split(sep)\<close> for a one-character separator; \<open>''.split(sep)\<close> is \<open>['']\<close>.\<close>

fun split :: "pychar \<Rightarrow> pystr \<Rightarrow> pystr list" where
  "split sep [] = [[]]"
| "split sep (c # cs) =
     (if c = sep then [] # split sep cs
      else (case split sep cs of [] \<Rightarrow> [[c]] | l # ls \<Rightarrow> (c # l) # ls))"

text \<open>\<open>sep.join(parts)\<close>.\<close>

fun join :: "pystr \<Rightarrow> pystr list \<Rightarrow> pystr" where
  "join sep [] = []"
| "join sep [l] = l"
| "join sep (l # m # ls) = l @ sep @ join sep (m # ls)"

text \<open>
  \<open>re.sub(r' +', ' ', s)\<close>: scanning from the left, every maximal run of spaces (the
  greedy match of \<open>' +'\<close>) is replaced by one space.
\<close>

function re_sub_spaces :: "pystr \<Rightarrow> pystr" where
  "re_sub_spaces [] = []"
| "re_sub_spaces (c # cs) =
     (if c = SP then SP # re_sub_spaces (dropWhile (\<lambda>d. d = SP) cs)
      else c # re_sub_spaces cs)"
  by pat_completeness auto
termination
  by (relation "measure length") (auto simp: le_imp_less_Suc length_dropWhile_le)

text \<open>
  \<open>s.lower()\<close> on the code points below 256 (ASCII and Latin-1 capitals move up by 32,
  the multiplication sign 215 stays). Code points from 256 on are left as they are; the
  only ones that Python lowers into ASCII letters are U+0130 and U+212A, which give
  \<open>i\<close> and \<open>k\<close>, letters of no supported extension.
\<close>

definition lower_char :: "pychar \<Rightarrow> pychar" where
  "lower_char c =
     (if 65 \<le> c \<and> c \<le> 90 then c + 32
      else if 192 \<le> c \<and> c \<le> 222 \<and> c \<noteq> 215 then c + 32
      else c)"

definition lower :: "pystr \<Rightarrow> pystr" where
  "lower s = map lower_char s"

text \<open>\<open>str(n)\<close> for a non-negative integer: its decimal digits.\<close>

function digits :: "nat \<Rightarrow> pystr" where
  "digits n = (if n < 10 then [48 + n] else digits (n div 10) @ [48 + n mod 10])"
  by pat_completeness auto
termination
  by (relation "measure id") auto

text \<open>
  Exceptions as values. The callers in this repository tell \<open>ValueError\<close> (and its
  subclasses) from every other \<open>Exception\<close>, and otherwise only read the message
  \<open>str(e)\<close>.
\<close>

datatype exn = ValueError pystr | Exception pystr

fun exn_str :: "exn \<Rightarrow> pystr" where
  "exn_str (ValueError m) = m"
| "exn_str (Exception m) = m"

section \<open>The document loader service\<close>

subsection \<open>Paths\<close>

text \<open>
  \<open>pathlib\<close> on a POSIX system, as in CPython up to 3.13: the name of a path is its last
  component after empty and \<open>.\<close> components are dropped; the suffix is the part of the name
  from its last dot on, when that dot is neither the first nor the last character.
\<close>

definition path_name :: "pystr \<Rightarrow> pystr" where
  "path_name p =
     (case filter (\<lambda>part. part \<noteq> [] \<and> part \<noteq> [DOT]) (split SLASH p) of
        [] \<Rightarrow> []
      | part # parts \<Rightarrow> last (part # parts))"

definition rfind :: "pychar \<Rightarrow> pystr \<Rightarrow> int" where
  "rfind c s =
     (if c \<in> set s then int (length s) - 1 - int (length (takeWhile (\<lambda>d. d \<noteq> c) (rev s)))
      else - 1)"

definition suffix :: "pystr \<Rightarrow> pystr" where
  "suffix p =
     (let name = path_name p; i = rfind DOT name
      in if 0 < i \<and> i < int (length name) - 1 then drop (nat i) name else [])"

definition stem :: "pystr \<Rightarrow> pystr" where
  "stem p =
     (let name = path_name p; i = rfind DOT name
      in if 0 < i \<and> i < int (length name) - 1 then take (nat i) name else name)"

subsection \<open>Validation\<close>

text \<open>
  \<open>SUPPORTED_EXTENSIONS\<close> is a Python set; it is listed here in the order of the source
  text. Only the tail of the "unsupported" message depends on the order in which Python
  iterates the set.
\<close>

definition SUPPORTED_EXTENSIONS :: "pystr list" where
  "SUPPORTED_EXTENSIONS = [str ''.pdf'', str ''.docx'', str ''.txt'']"

definition MAX_FILE_SIZE_BYTES :: int where
  "MAX_FILE_SIZE_BYTES = 10 * 1024 * 1024"

definition validate_file :: "pystr \<Rightarrow> int \<Rightarrow> bool \<times> pystr option" where
  "validate_file filename file_size =
     (let file_ext = lower (suffix filename)
      in if file_ext \<notin> set SUPPORTED_EXTENSIONS then
           (False, Some (str ''Unsupported file type. Supported: ''
                           @ join (str '', '') SUPPORTED_EXTENSIONS))
         else if file_size > MAX_FILE_SIZE_BYTES then
           (False, Some (str ''File too large. Maximum size: 10.0MB''))
         else if file_size = 0 then
           (False, Some (str ''File is empty''))
         else (True, None))"

subsection \<open>Extraction strategies\<close>

text \<open>
  The parsing libraries (PyPDF2, python-docx, the LangChain loaders, Python's codecs) are
  not part of the repository. Each is a parameter: a function from the content of the file
  at the given path to what the library call returns or raises.
  \<^item> \<open>PdfReader\<close>: constructing the reader raises, or there is a list of pages, and
    \<open>page.extract_text()\<close> of each page raises or returns a text;
  \<^item> the loaders' \<open>load()\<close> raises or returns the \<open>page_content\<close> of each document;
  \<^item> \<open>DocxDocument\<close> raises or gives the text of each paragraph;
  \<^item> a codec returns the decoded text, or \<open>None\<close> for \<open>UnicodeDecodeError\<close>.
\<close>

record libs =
  PdfReader :: "bytes \<Rightarrow> exn + (exn + pystr) list"
  PyPDFLoader :: "bytes \<Rightarrow> exn + pystr list"
  DocxDocument :: "bytes \<Rightarrow> exn + pystr list"
  Docx2txtLoader :: "bytes \<Rightarrow> exn + pystr list"
  TextLoader :: "bytes \<Rightarrow> exn + pystr list"
  utf_8 :: "bytes \<Rightarrow> pystr option"
  cp1252 :: "bytes \<Rightarrow> pystr option"

text \<open>
  The \<open>for page in reader.pages\<close> loop of \<open>extract_text_from_pdf\<close>: a page whose text is
  empty is skipped, and the first page that raises ends the loop with its exception.
\<close>

fun pdf_pages :: "(exn + pystr) list \<Rightarrow> pystr list \<Rightarrow> exn + pystr list" where
  "pdf_pages [] text_parts = Inr text_parts"
| "pdf_pages (page # pages) text_parts =
     (case page of
        Inl e \<Rightarrow> Inl e
      | Inr text \<Rightarrow> pdf_pages pages (if text \<noteq> [] then text_parts @ [text] else text_parts))"

text \<open>The body of the outer \<open>try\<close>: PyPDF2, page by page.\<close>

definition pdf_primary :: "exn + (exn + pystr) list \<Rightarrow> exn + pystr list" where
  "pdf_primary reader = (case reader of Inl e \<Rightarrow> Inl e | Inr pages \<Rightarrow> pdf_pages pages [])"

definition extract_text_from_pdf ::
  "exn + (exn + pystr) list \<Rightarrow> exn + pystr list \<Rightarrow> exn + pystr" where
  "extract_text_from_pdf reader loader =
     (case pdf_primary reader of
        Inr text_parts \<Rightarrow> Inr (join [NL, NL] text_parts)
      | Inl e \<Rightarrow>
          (case loader of
             Inr documents \<Rightarrow> Inr (join [NL, NL] documents)
           | Inl fallback_error \<Rightarrow>
               Inl (Exception (str ''Failed to extract PDF text: '' @ exn_str fallback_error))))"

definition extract_text_from_docx :: "exn + pystr list \<Rightarrow> exn + pystr list \<Rightarrow> exn + pystr" where
  "extract_text_from_docx document loader =
     (case document of
        Inr paragraphs \<Rightarrow> Inr (join [NL, NL] (filter (\<lambda>text. strip text \<noteq> []) paragraphs))
      | Inl e \<Rightarrow>
          (case loader of
             Inr documents \<Rightarrow> Inr (join [NL, NL] documents)
           | Inl fallback_error \<Rightarrow>
               Inl (Exception (str ''Failed to extract DOCX text: '' @ exn_str fallback_error))))"

text \<open>
  Reading a file opened in text mode: the bytes are decoded with the given encoding, then
  \<open>\r\n\<close> and \<open>\r\<close> become \<open>\n\<close> (universal newlines). Latin-1 and ISO-8859-1 are the same
  codec: byte \<open>b\<close> is code point \<open>b\<close>.
\<close>

datatype encoding = UTF_8 | LATIN_1 | CP1252 | ISO_8859_1

fun decode :: "libs \<Rightarrow> encoding \<Rightarrow> bytes \<Rightarrow> pystr option" where
  "decode L UTF_8 content = utf_8 L content"
| "decode L LATIN_1 content = Some (map of_char content)"
| "decode L CP1252 content = cp1252 L content"
| "decode L ISO_8859_1 content = Some (map of_char content)"

fun universal_newlines :: "pystr \<Rightarrow> pystr" where
  "universal_newlines [] = []"
| "universal_newlines [c] = (if c = CR then [NL] else [c])"
| "universal_newlines (c # d # cs) =
     (if c = CR \<and> d = NL then NL # universal_newlines cs
      else if c = CR then NL # universal_newlines (d # cs)
      else c # universal_newlines (d # cs))"

definition read_text :: "libs \<Rightarrow> encoding \<Rightarrow> bytes \<Rightarrow> pystr option" where
  "read_text L enc content = map_option universal_newlines (decode L enc content)"

text \<open>The \<open>for encoding in [...]\<close> loop: the first encoding that decodes returns.\<close>

fun try_encodings :: "libs \<Rightarrow> encoding list \<Rightarrow> bytes \<Rightarrow> pystr option" where
  "try_encodings L [] content = None"
| "try_encodings L (enc # encs) content =
     (case read_text L enc content of
        Some text \<Rightarrow> Some text
      | None \<Rightarrow> try_encodings L encs content)"

definition extract_text_from_txt :: "libs \<Rightarrow> bytes \<Rightarrow> exn + pystr" where
  "extract_text_from_txt L content =
     (case read_text L UTF_8 content of
        Some text \<Rightarrow> Inr text
      | None \<Rightarrow>
          (case try_encodings L [LATIN_1, CP1252, ISO_8859_1] content of
             Some text \<Rightarrow> Inr text
           | None \<Rightarrow>
               (case TextLoader L content of
                  Inr documents \<Rightarrow> Inr (join [NL, NL] documents)
                | Inl fallback_error \<Rightarrow>
                    Inl (Exception (str ''Failed to extract TXT text: ''
                                      @ exn_str fallback_error)))))"

subsection \<open>Normalisation and dispatch\<close>

definition normalize_text :: "pystr \<Rightarrow> pystr" where
  "normalize_text text =
     (if text = [] then []
      else let lines = map strip (split NL text);
               lines = filter (\<lambda>line. line \<noteq> []) lines;
               normalized = join [NL] lines;
               normalized = re_sub_spaces normalized
           in strip normalized)"

text \<open>\<open>extract_text\<close> of the file at \<open>filepath\<close>, whose content is \<open>content\<close>.\<close>

definition extract_text :: "libs \<Rightarrow> pystr \<Rightarrow> bytes \<Rightarrow> exn + pystr" where
  "extract_text L filepath content =
     (let file_ext = lower (suffix filepath);
          extracted =
            (if file_ext = str ''.pdf'' then
               extract_text_from_pdf (PdfReader L content) (PyPDFLoader L content)
             else if file_ext = str ''.docx'' then
               extract_text_from_docx (DocxDocument L content) (Docx2txtLoader L content)
             else if file_ext = str ''.txt'' then
               extract_text_from_txt L content
             else Inl (ValueError (str ''Unsupported file type: '' @ file_ext)))
      in case extracted of
           Inl e \<Rightarrow> Inl e
         | Inr text \<Rightarrow> Inr (normalize_text text))"

subsection \<open>Temporary storage\<close>

text \<open>
  The files of the process, as a map from path to content. What the operating system and
  the clock do during one call is a parameter: whether \<open>open\<close>, \<open>write\<close> (after how many
  bytes) or \<open>unlink\<close> raises, and what \<open>datetime.now()\<close> formats to.
\<close>

type_synonym files = "pystr \<rightharpoonup> bytes"

record env =
  strftime_now :: pystr
  isoformat_now :: pystr
  open_raises :: "exn option"
  write_raises :: "(exn \<times> nat) option"
  unlink_raises :: "exn option"

definition UPLOADS_DIR :: pystr where
  "UPLOADS_DIR = str ''uploads''"

definition upload_path :: "env \<Rightarrow> pystr \<Rightarrow> pystr" where
  "upload_path E filename =
     (let timestamp = strftime_now E;
          safe_filename = stem filename;
          file_ext = suffix filename;
          unique_filename = safe_filename @ str ''_'' @ timestamp @ file_ext
      in UPLOADS_DIR @ [SLASH] @ unique_filename)"

text \<open>
  \<open>save_upload\<close>: \<open>open(filepath, 'wb')\<close> creates or truncates the file, \<open>write\<close> fills it.
  When \<open>write\<close> raises, the file exists with the bytes written so far.
\<close>

definition save_upload :: "env \<Rightarrow> files \<Rightarrow> bytes \<Rightarrow> pystr \<Rightarrow> files \<times> (exn + pystr)" where
  "save_upload E fs file_content filename =
     (let filepath = upload_path E filename
      in case open_raises E of
           Some e \<Rightarrow> (fs, Inl e)
         | None \<Rightarrow>
             (case write_raises E of
                Some (e, n) \<Rightarrow> (fs(filepath \<mapsto> take n file_content), Inl e)
              | None \<Rightarrow> (fs(filepath \<mapsto> file_content), Inr filepath)))"

text \<open>\<open>cleanup_file\<close>: an exception of \<open>unlink\<close> is printed and swallowed.\<close>

definition cleanup_file :: "env \<Rightarrow> files \<Rightarrow> pystr \<Rightarrow> files" where
  "cleanup_file E fs filepath =
     (if fs filepath \<noteq> None then
        (case unlink_raises E of
           None \<Rightarrow> fs(filepath := None)
         | Some e \<Rightarrow> fs)
      else fs)"

record metadata =
  md_original_filename :: pystr
  md_file_type :: pystr
  md_file_size_bytes :: int
  md_extracted_length :: nat
  md_extraction_timestamp :: pystr

text \<open>
  \<open>process_uploaded_file\<close>. When \<open>save_upload\<close> raises, \<open>filepath\<close> is still \<open>None\<close> and the
  \<open>finally\<close> block does nothing; otherwise the \<open>finally\<close> block runs whether extraction
  returned or raised. The file just written holds \<open>file_content\<close>.
\<close>

definition process_uploaded_file ::
  "libs \<Rightarrow> env \<Rightarrow> files \<Rightarrow> bytes \<Rightarrow> pystr \<Rightarrow> bool \<Rightarrow> files \<times> (exn + pystr \<times> metadata)" where
  "process_uploaded_file L E fs file_content filename cleanup_after =
     (case validate_file filename (int (length file_content)) of
        (False, error) \<Rightarrow>
          (fs, Inl (ValueError (case error of Some m \<Rightarrow> m | None \<Rightarrow> str ''None'')))
      | (True, error) \<Rightarrow>
          (case save_upload E fs file_content filename of
             (fs1, Inl e) \<Rightarrow> (fs1, Inl e)
           | (fs1, Inr filepath) \<Rightarrow>
               (let result =
                      (case extract_text L filepath file_content of
                         Inl e \<Rightarrow> Inl e
                       | Inr extracted_text \<Rightarrow>
                           Inr (extracted_text,
                                \<lparr>md_original_filename = filename,
                                 md_file_type = lower (suffix filepath),
                                 md_file_size_bytes = int (length file_content),
                                 md_extracted_length = length extracted_text,
                                 md_extraction_timestamp = isoformat_now E\<rparr>));
                    fs2 = (if cleanup_after then cleanup_file E fs1 filepath else fs1)
                in (fs2, result))))"

subsection \<open>Sweeping old files\<close>

text \<open>
  An entry of the uploads directory as \<open>iterdir\<close>, \<open>is_file\<close>, \<open>stat\<close> and \<open>unlink\<close> see it;
  \<open>unlink_ok\<close> says whether \<open>unlink\<close> of the entry succeeds. Time stamps are seconds.
\<close>

record dir_entry =
  entry_name :: pystr
  is_file :: bool
  st_mtime :: real
  unlink_ok :: bool

text \<open>
  The loop of \<open>cleanup_old_files\<close>, with the entries that remain made explicit: it returns
  them together with the counter \<open>deleted\<close>.
\<close>

fun sweep :: "real \<Rightarrow> real \<Rightarrow> dir_entry list \<Rightarrow> nat \<Rightarrow> dir_entry list \<times> nat" where
  "sweep current_time max_age_seconds [] deleted = ([], deleted)"
| "sweep current_time max_age_seconds (filepath # rest) deleted =
     (if is_file filepath \<and> current_time - st_mtime filepath > max_age_seconds then
        (if unlink_ok filepath then sweep current_time max_age_seconds rest (deleted + 1)
         else (let (kept, n) = sweep current_time max_age_seconds rest deleted
               in (filepath # kept, n)))
      else (let (kept, n) = sweep current_time max_age_seconds rest deleted
            in (filepath # kept, n)))"

text \<open>
  \<open>cleanup_old_files\<close> at clock reading \<open>current_time\<close>; the directory is \<open>None\<close> when it
  does not exist.
\<close>

definition cleanup_old_files ::
  "real \<Rightarrow> dir_entry list option \<Rightarrow> int \<Rightarrow> dir_entry list option \<times> nat" where
  "cleanup_old_files current_time uploads max_age_hours =
     (case uploads of
        None \<Rightarrow> (None, 0)
      | Some entries \<Rightarrow>
          (let max_age_seconds = real_of_int (max_age_hours * 3600);
               (kept, deleted) = sweep current_time max_age_seconds entries 0
           in (Some kept, deleted)))"

section \<open>The upload endpoint\<close>

text \<open>
  Values of the dictionaries whose values the source types as \<open>Any\<close>, and Python's
  truth value of each.
\<close>

datatype pyval = PNone | PBool bool | PInt int | PFloat real | PStr pystr

fun truthy :: "pyval \<Rightarrow> bool" where
  "truthy PNone = False"
| "truthy (PBool b) = b"
| "truthy (PInt i) = (i \<noteq> 0)"
| "truthy (PFloat x) = (x \<noteq> 0)"
| "truthy (PStr s) = (s \<noteq> [])"

text \<open>
  Modelled from the spec: the result type of the fraud agent, whose module
  \<open>backend.agent.fraud_agent\<close> is not among the sources. It has the fields the endpoint
  reads: a risk level, a summary, a list of flags (each with category, severity,
  description, evidence, a confidence and an optional amount), a list of recommendations,
  a total flagged amount and the document metadata. \<open>DocumentAuditResponse\<close> of
  \<open>schemas.py\<close> carries the same fields and three more.
\<close>

record flag =
  category :: pystr
  severity :: pystr
  description :: pystr
  evidence :: pystr
  confidence :: real
  amount_involved :: "real option"

record analysis_result =
  risk_level :: pystr
  summary :: pystr
  list_of_flags :: "flag list"
  recommendations :: "pystr list"
  total_flagged_amount :: real
  document_metadata :: "pystr \<rightharpoonup> pyval"

record DocumentAuditResponse = analysis_result +
  timestamp :: pystr
  visualizations :: "(pystr \<rightharpoonup> pystr) option"
  email_sent :: "(pystr \<rightharpoonup> pyval) option"

record FileUploadResponse =
  filename :: pystr
  file_type :: pystr
  file_size_bytes :: int
  extracted_text_length :: nat
  analysis :: DocumentAuditResponse

text \<open>
  Modelled from the spec: in an analysis verdict the confidence of every flag lies in
  \<open>[0, 1]\<close>.
\<close>

definition verdict_ok :: "analysis_result \<Rightarrow> bool" where
  "verdict_ok a \<longleftrightarrow>
     list_all (\<lambda>flag. 0 \<le> confidence flag \<and> confidence flag \<le> 1) (list_of_flags a)"

text \<open>\<open>HTTPException(status_code, detail)\<close>.\<close>

datatype http_error = HTTPException nat pystr

text \<open>The uploaded file: its name, if any, and what \<open>await file.read()\<close> gives.\<close>

record upload_file =
  uf_filename :: "pystr option"
  uf_read :: "exn + bytes"

text \<open>
  The external services, as functions from their arguments to what they return or raise:
  the fraud agent, the dashboard renderer (the result is \<open>str(dashboard_path)\<close>) and the
  mailer (recipient, analysis, visualizations, document name). \<open>utcnow\<close> is the default
  of the response's \<open>timestamp\<close>, and \<open>validation_error\<close> is the text of pydantic's error.
\<close>

record services =
  analyze_document_async :: "pystr \<Rightarrow> exn + analysis_result"
  create_comprehensive_dashboard :: "analysis_result \<Rightarrow> exn + pystr"
  send_analysis_report_async ::
    "pystr \<Rightarrow> analysis_result \<Rightarrow> (pystr \<rightharpoonup> pystr) option \<Rightarrow> pystr \<Rightarrow> exn + (pystr \<rightharpoonup> pyval)"
  utcnow :: pystr
  validation_error :: pystr

text \<open>Step 4: an exception of the renderer leaves \<open>visualizations\<close> at \<open>None\<close>.\<close>

definition generate_visualizations ::
  "services \<Rightarrow> analysis_result \<Rightarrow> (pystr \<rightharpoonup> pystr) option" where
  "generate_visualizations S analysis_result =
     (case create_comprehensive_dashboard S analysis_result of
        Inr dashboard_path \<Rightarrow> Some [str ''dashboard'' \<mapsto> dashboard_path]
      | Inl viz_error \<Rightarrow> None)"

text \<open>
  Step 5. \<open>if recipient_email\<close> holds for a string that is not empty. A result without the
  key \<open>success\<close> raises \<open>KeyError('success')\<close> inside the \<open>try\<close>, which the handler catches
  like an exception of the mailer.
\<close>

definition send_email_report ::
  "services \<Rightarrow> pystr option \<Rightarrow> analysis_result \<Rightarrow> (pystr \<rightharpoonup> pystr) option \<Rightarrow> pystr
     \<Rightarrow> (pystr \<rightharpoonup> pyval) option" where
  "send_email_report S recipient_email analysis_result visualizations' document_name =
     (case recipient_email of
        None \<Rightarrow> None
      | Some recipient \<Rightarrow>
          if recipient = [] then None
          else Some
            (case send_analysis_report_async S recipient analysis_result visualizations'
                    document_name of
               Inl email_error \<Rightarrow>
                 [str ''success'' \<mapsto> PBool False,
                  str ''recipient'' \<mapsto> PStr recipient,
                  str ''error'' \<mapsto> PStr (exn_str email_error)]
             | Inr email_result \<Rightarrow>
                 (case email_result (str ''success'') of
                    None \<Rightarrow>
                      [str ''success'' \<mapsto> PBool False,
                       str ''recipient'' \<mapsto> PStr recipient,
                       str ''error'' \<mapsto> PStr (str [CHR 0x27] @ str ''success'' @ str [CHR 0x27])]
                  | Some success \<Rightarrow>
                      (let email_status =
                             [str ''success'' \<mapsto> success,
                              str ''recipient'' \<mapsto> PStr recipient,
                              str ''message'' \<mapsto>
                                (case email_result (str ''message'') of
                                   Some m \<Rightarrow> m
                                 | None \<Rightarrow> PStr (str ''Email sent successfully''))]
                       in if truthy success then email_status
                          else email_status
                                 (str ''error'' \<mapsto>
                                    (case email_result (str ''error'') of
                                       Some e \<Rightarrow> e
                                     | None \<Rightarrow> PNone))))))"

text \<open>
  Step 6. Building a \<open>DocumentFraudFlag\<close> validates \<open>0 \<le> confidence \<le> 1\<close>; a failed
  validation is caught and becomes the status 500.
\<close>

definition build_response ::
  "services \<Rightarrow> metadata \<Rightarrow> analysis_result \<Rightarrow> (pystr \<rightharpoonup> pystr) option
     \<Rightarrow> (pystr \<rightharpoonup> pyval) option \<Rightarrow> http_error + FileUploadResponse" where
  "build_response S metadata analysis_result visualizations' email_status =
     (if list_all (\<lambda>flag. 0 \<le> confidence flag \<and> confidence flag \<le> 1)
           (list_of_flags analysis_result) then
        (let analysis_metadata =
               (document_metadata analysis_result)
                 (str ''original_filename'' \<mapsto> PStr (md_original_filename metadata),
                  str ''file_type'' \<mapsto> PStr (md_file_type metadata),
                  str ''file_size_bytes'' \<mapsto> PInt (md_file_size_bytes metadata),
                  str ''extraction_timestamp'' \<mapsto> PStr (md_extraction_timestamp metadata));
             audit_response =
               \<lparr>risk_level = risk_level analysis_result,
                summary = summary analysis_result,
                list_of_flags = list_of_flags analysis_result,
                recommendations = recommendations analysis_result,
                total_flagged_amount = total_flagged_amount analysis_result,
                document_metadata = analysis_metadata,
                timestamp = utcnow S,
                visualizations = visualizations',
                email_sent = email_status\<rparr>
         in Inr \<lparr>filename = md_original_filename metadata,
                 file_type = md_file_type metadata,
                 file_size_bytes = md_file_size_bytes metadata,
                 extracted_text_length = md_extracted_length metadata,
                 analysis = audit_response\<rparr>)
      else Inl (HTTPException 500 (str ''Failed to format response: '' @ validation_error S)))"

text \<open>\<open>name or other\<close> for an optional string: \<open>None\<close> and the empty string are false.\<close>

definition or_default :: "pystr option \<Rightarrow> pystr \<Rightarrow> pystr" where
  "or_default name other =
     (case name of
        None \<Rightarrow> other
      | Some n \<Rightarrow> if n = [] then other else n)"

text \<open>Steps 3 to 6, once the text has passed the length check.\<close>

definition analyze_and_report ::
  "services \<Rightarrow> pystr option \<Rightarrow> pystr \<Rightarrow> metadata \<Rightarrow> http_error + FileUploadResponse" where
  "analyze_and_report S recipient_email extracted_text metadata =
     (case analyze_document_async S extracted_text of
        Inl e \<Rightarrow> Inl (HTTPException 500 (str ''Fraud analysis failed: '' @ exn_str e))
      | Inr analysis_result \<Rightarrow>
          (let visualizations' = generate_visualizations S analysis_result;
               email_status =
                 send_email_report S recipient_email analysis_result visualizations'
                   (md_original_filename metadata)
           in build_response S metadata analysis_result visualizations' email_status))"

text \<open>
  \<open>analyze_uploaded_document\<close>: the handler of \<open>POST /api/v1/upload/analyze\<close>. It returns
  the files after the call and either the exception raised or the response.
\<close>

definition analyze_uploaded_document ::
  "services \<Rightarrow> libs \<Rightarrow> env \<Rightarrow> files \<Rightarrow> upload_file \<Rightarrow> pystr option
     \<Rightarrow> files \<times> (http_error + FileUploadResponse)" where
  "analyze_uploaded_document S L E fs file recipient_email =
     (case uf_read file of
        Inl e \<Rightarrow> (fs, Inl (HTTPException 400 (str ''Failed to read uploaded file: '' @ exn_str e)))
      | Inr file_content \<Rightarrow>
          (case process_uploaded_file L E fs file_content
                  (or_default (uf_filename file) (str ''unknown.txt'')) True of
             (fs', Inl (ValueError m)) \<Rightarrow> (fs', Inl (HTTPException 400 m))
           | (fs', Inl (Exception m)) \<Rightarrow>
               (fs', Inl (HTTPException 500 (str ''Failed to extract text from document: '' @ m)))
           | (fs', Inr (extracted_text, metadata)) \<Rightarrow>
               if length extracted_text < 50 then
                 (fs', Inl (HTTPException 400
                              (str ''Insufficient text extracted (''
                                 @ digits (length extracted_text)
                                 @ str '' chars). Minimum 50 characters required.'')))
               else (fs', analyze_and_report S recipient_email extracted_text metadata)))"

section \<open>Auxiliary predicates\<close>

text \<open>\<open>adjacent a b s\<close>: somewhere in \<open>s\<close>, an \<open>a\<close> is directly followed by a \<open>b\<close>.\<close>

definition adjacent :: "'a \<Rightarrow> 'a \<Rightarrow> 'a list \<Rightarrow> bool" where
  "adjacent a b s \<longleftrightarrow> (a, b) \<in> set (zip s (tl s))"

text \<open>A line as normalisation leaves it: not empty, no newline, no whitespace at its ends.\<close>

definition clean_line :: "pystr \<Rightarrow> bool" where
  "clean_line l \<longleftrightarrow> l \<noteq> [] \<and> NL \<notin> set l \<and> \<not> isspace (hd l) \<and> \<not> isspace (last l)"

text \<open>The lines of the normalised text.\<close>

definition text_lines :: "pystr \<Rightarrow> pystr list" where
  "text_lines t = map re_sub_spaces (filter (\<lambda>line. line \<noteq> []) (map strip (split NL t)))"

text \<open>The entries that one run of the sweep removes.\<close>

definition swept :: "real \<Rightarrow> int \<Rightarrow> dir_entry \<Rightarrow> bool" where
  "swept current_time max_age_hours f \<longleftrightarrow>
     is_file f \<and> current_time - st_mtime f > real_of_int (max_age_hours * 3600) \<and> unlink_ok f"

section \<open>Example inputs\<close>

text \<open>
  Libraries for a run on a plain text file: UTF-8 decoding of ASCII bytes succeeds, and
  the PDF and DOCX libraries are not available.
\<close>

definition demo_libs :: libs where
  "demo_libs =
     \<lparr>PdfReader = (\<lambda>content. Inl (Exception (str ''not a PDF''))),
      PyPDFLoader = (\<lambda>content. Inl (Exception (str ''not a PDF''))),
      DocxDocument = (\<lambda>content. Inl (Exception (str ''not a DOCX''))),
      Docx2txtLoader = (\<lambda>content. Inl (Exception (str ''not a DOCX''))),
      TextLoader = (\<lambda>content. Inl (Exception (str ''no loader''))),
      utf_8 = (\<lambda>content. Some (map of_char content)),
      cp1252 = (\<lambda>content. None)\<rparr>"

text \<open>Libraries whose PDF and DOCX strategies return a text of a few characters.\<close>

definition short_libs :: libs where
  "short_libs =
     demo_libs
       \<lparr>PdfReader := (\<lambda>content. Inr [Inr (str ''short  pdf'')]),
        DocxDocument := (\<lambda>content. Inr [str ''short  docx''])\<rparr>"

text \<open>An environment in which every file operation succeeds, and one whose \<open>unlink\<close> raises.\<close>

definition demo_env :: env where
  "demo_env =
     \<lparr>strftime_now = str ''20240101_120000'',
      isoformat_now = str ''2024-01-01T12:00:00'',
      open_raises = None,
      write_raises = None,
      unlink_raises = None\<rparr>"

definition locked_env :: env where
  "locked_env = demo_env\<lparr>unlink_raises := Some (Exception (str ''Permission denied''))\<rparr>"

text \<open>A file whose modification time lies after the clock reading 1000 of the sweep.\<close>

definition future_entry :: dir_entry where
  "future_entry =
     \<lparr>entry_name = str ''report_20240101_120000.txt'',
      is_file = True,
      st_mtime = 2000,
      unlink_ok = True\<rparr>"

text \<open>
  An upload of a text of 61 characters, and services whose renderer raises: the analyzer
  returns one flag, and the mailer either reports a failure or raises.
\<close>

definition demo_file :: upload_file where
  "demo_file =
     \<lparr>uf_filename = Some (str ''invoice.txt''),
      uf_read = Inr ''Invoice 42: payment of 1000 USD to ACME Corp. approved twice.''\<rparr>"

definition short_file :: upload_file where
  "short_file = \<lparr>uf_filename = Some (str ''note.txt''), uf_read = Inr ''hi  there''\<rparr>"

definition demo_analysis :: analysis_result where
  "demo_analysis =
     \<lparr>risk_level = str ''High'',
      summary = str ''Duplicate approval'',
      list_of_flags =
        [\<lparr>category = str ''duplicate'',
          severity = str ''high'',
          description = str ''approved twice'',
          evidence = str ''Invoice 42'',
          confidence = 9 / 10,
          amount_involved = Some 1000\<rparr>],
      recommendations = [str ''Review invoice 42''],
      total_flagged_amount = 1000,
      document_metadata = Map.empty\<rparr>"

definition demo_services :: services where
  "demo_services =
     \<lparr>analyze_document_async = (\<lambda>text. Inr demo_analysis),
      create_comprehensive_dashboard =
        (\<lambda>a. Inl (Exception (str ''renderer unavailable''))),
      send_analysis_report_async =
        (\<lambda>recipient a v document_name.
           Inr [str ''success'' \<mapsto> PBool False, str ''error'' \<mapsto> PStr (str ''SMTP refused'')]),
      utcnow = str ''2024-01-01T12:00:01'',
      validation_error = str ''validation error''\<rparr>"

definition raising_services :: services where
  "raising_services =
     demo_services
       \<lparr>send_analysis_report_async :=
          (\<lambda>recipient a v document_name. Inl (Exception (str ''connection timed out'')))\<rparr>"

section \<open>Normalisation\<close>

subsection \<open>Splitting, stripping, joining\<close>

lemma split_not_Nil: "split sep s \<noteq> []"
  by (induction s) (auto split: list.splits)

lemma split_no_sep: "l \<in> set (split sep s) \<Longrightarrow> sep \<notin> set l"
  by (induction s arbitrary: l) (auto split: if_splits list.splits)

lemma split_single: "sep \<notin> set l \<Longrightarrow> split sep l = [l]"
  by (induction l) auto

lemma split_append: "sep \<notin> set l \<Longrightarrow> split sep (l @ sep # rest) = l # split sep rest"
  by (induction l) auto

lemma strip_subset: "set (strip s) \<subseteq> set s"
proof -
  have "set (dropWhile isspace (rev (dropWhile isspace s))) \<subseteq> set (rev (dropWhile isspace s))"
    by (rule set_dropWhileD[THEN subsetI])
  also have "\<dots> \<subseteq> set s"
    using set_dropWhileD by fastforce
  finally show ?thesis by (simp add: strip_def)
qed

lemma strip_last: "strip s \<noteq> [] \<Longrightarrow> \<not> isspace (last (strip s))"
  unfolding strip_def by (simp add: last_rev hd_dropWhile)

lemma strip_id:
  assumes "s = [] \<or> (\<not> isspace (hd s) \<and> \<not> isspace (last s))"
  shows "strip s = s"
proof (cases s)
  case Nil
  then show ?thesis by (simp add: strip_def)
next
  case (Cons c cs)
  with assms have h: "\<not> isspace c" and l: "\<not> isspace (last s)" by auto
  from h Cons have 1: "dropWhile isspace s = s" by simp
  from Cons obtain x xs where r: "rev s = x # xs" by (cases "rev s") auto
  have "hd (rev s) = last s" using Cons by (simp add: hd_rev)
  with r have "x = last s" by simp
  with l have "\<not> isspace x" by simp
  then have "dropWhile isspace (x # xs) = x # xs" by simp
  with r have 2: "dropWhile isspace (rev s) = rev s" by simp
  show ?thesis by (simp add: strip_def 1 2)
qed

lemma strip_hd:
  assumes ne: "strip s \<noteq> []"
  shows "\<not> isspace (hd (strip s))"
proof -
  let ?d = "dropWhile isspace s"
  have dne: "?d \<noteq> []"
  proof
    assume e: "?d = []"
    have "strip s = []" unfolding strip_def e by simp
    with ne show False by simp
  qed
  then have hd: "\<not> isspace (hd ?d)" by (rule hd_dropWhile)
  obtain c cs where d: "?d = c # cs" using dne by (cases ?d) auto
  with hd have c: "\<not> isspace c" by simp
  have "rev ?d = rev cs @ [c]" using d by simp
  then have "dropWhile isspace (rev ?d) = dropWhile isspace (rev cs) @ [c]"
    using c by (simp add: dropWhile_append)
  then have "strip s = c # rev (dropWhile isspace (rev cs))"
    by (simp add: strip_def)
  with c show ?thesis by simp
qed

lemma join_Nil_iff: "\<forall>l\<in>set ls. l \<noteq> [] \<Longrightarrow> join sep ls = [] \<longleftrightarrow> ls = []"
  by (induction sep ls rule: join.induct) auto

lemma hd_join: "ls \<noteq> [] \<Longrightarrow> hd ls \<noteq> [] \<Longrightarrow> hd (join sep ls) = hd (hd ls)"
  by (induction sep ls rule: join.induct) auto

lemma last_join:
  "ls \<noteq> [] \<Longrightarrow> \<forall>l\<in>set ls. l \<noteq> [] \<Longrightarrow> last (join sep ls) = last (last ls)"
  by (induction sep ls rule: join.induct) (auto simp: join_Nil_iff)

lemma split_join:
  "ls \<noteq> [] \<Longrightarrow> \<forall>l\<in>set ls. sep \<notin> set l \<Longrightarrow> split sep (join [sep] ls) = ls"
  by (induction "[sep]" ls rule: join.induct) (auto simp: split_single split_append)

subsection \<open>Collapsing runs of spaces\<close>

lemma dropWhile_append_stop:
  "\<not> P c \<Longrightarrow> dropWhile P (xs @ c # ys) = dropWhile P xs @ c # ys"
  by (induction xs) auto

lemma last_dropWhile_eq: "dropWhile P xs \<noteq> [] \<Longrightarrow> last (dropWhile P xs) = last xs"
  by (induction xs) (auto split: if_splits)

lemma re_sub_append_nonsp:
  "c \<noteq> SP \<Longrightarrow> re_sub_spaces (xs @ c # ys) = re_sub_spaces xs @ c # re_sub_spaces ys"
proof (induction xs rule: re_sub_spaces.induct)
  case 1
  then show ?case by simp
next
  case (2 d ds)
  show ?case
  proof (cases "d = SP")
    case True
    have "dropWhile (\<lambda>e. e = SP) (ds @ c # ys) = dropWhile (\<lambda>e. e = SP) ds @ c # ys"
      using 2(3) by (simp add: dropWhile_append_stop)
    with True 2(1)[OF True 2(3)] show ?thesis by simp
  next
    case False
    with 2(2)[OF False 2(3)] show ?thesis by simp
  qed
qed

lemma re_sub_Nil_iff: "re_sub_spaces s = [] \<longleftrightarrow> s = []"
  by (cases s) auto

lemma re_sub_hd: "hd (re_sub_spaces s) = hd s"
  by (cases s) auto

lemma re_sub_last: "s \<noteq> [] \<Longrightarrow> last (re_sub_spaces s) = last s"
proof (induction s rule: re_sub_spaces.induct)
  case 1
  then show ?case by simp
next
  case (2 c cs)
  show ?case
  proof (cases "c = SP")
    case True
    let ?d = "dropWhile (\<lambda>d. d = SP) cs"
    show ?thesis
    proof (cases "?d = []")
      case dn: True
      then have "\<forall>x\<in>set cs. x = SP" by (simp add: dropWhile_eq_Nil_conv)
      then have l: "last (c # cs) = SP" using True by (induction cs) auto
      have "re_sub_spaces (c # cs) = [SP]" using True by (simp add: dn)
      with l show ?thesis by simp
    next
      case dn: False
      then have cs: "cs \<noteq> []" by auto
      have r: "re_sub_spaces ?d \<noteq> []"
        using dn by (simp only: re_sub_Nil_iff not_False_eq_True)
      have "last (re_sub_spaces (c # cs)) = last (re_sub_spaces ?d)"
        using True r by simp
      also have "\<dots> = last ?d" by (rule 2(1)[OF True dn])
      also have "\<dots> = last cs" by (rule last_dropWhile_eq[OF dn])
      also have "\<dots> = last (c # cs)" using cs by simp
      finally show ?thesis .
    qed
  next
    case False
    with 2(2) show ?thesis by (cases cs) (auto simp: re_sub_Nil_iff)
  qed
qed

lemma re_sub_set: "set (re_sub_spaces s) \<subseteq> set s"
proof (induction s rule: re_sub_spaces.induct)
  case 1
  then show ?case by simp
next
  case (2 c cs)
  have "set (dropWhile (\<lambda>d. d = SP) cs) \<subseteq> set cs"
    using set_dropWhileD by fastforce
  with 2 show ?case by auto
qed

lemma adjacent_Nil: "\<not> adjacent a b []"
  by (simp add: adjacent_def)

lemma adjacent_Cons:
  "adjacent a b (c # cs) \<longleftrightarrow> (cs \<noteq> [] \<and> c = a \<and> hd cs = b) \<or> adjacent a b cs"
  by (cases cs) (auto simp: adjacent_def)

lemma re_sub_no_double: "\<not> adjacent SP SP (re_sub_spaces s)"
proof (induction s rule: re_sub_spaces.induct)
  case 1
  then show ?case by (simp add: adjacent_Nil)
next
  case (2 c cs)
  show ?case
  proof (cases "c = SP")
    case True
    let ?d = "dropWhile (\<lambda>d. d = SP) cs"
    have "?d \<noteq> [] \<Longrightarrow> hd ?d \<noteq> SP" by (rule hd_dropWhile)
    with True 2(1)[OF True] show ?thesis
      by (auto simp: adjacent_Cons re_sub_Nil_iff re_sub_hd)
  next
    case False
    with 2(2)[OF False] show ?thesis by (auto simp: adjacent_Cons)
  qed
qed

lemma re_sub_id: "\<not> adjacent SP SP s \<Longrightarrow> re_sub_spaces s = s"
proof (induction s rule: re_sub_spaces.induct)
  case 1
  then show ?case by simp
next
  case (2 c cs)
  show ?case
  proof (cases "c = SP")
    case True
    from 2(3) True have "cs = [] \<or> hd cs \<noteq> SP" and na: "\<not> adjacent SP SP cs"
      by (auto simp: adjacent_Cons)
    then have d: "dropWhile (\<lambda>d. d = SP) cs = cs" by (cases cs) auto
    with True 2(1)[OF True] na show ?thesis by simp
  next
    case False
    with 2(2)[OF False] 2(3) show ?thesis by (auto simp: adjacent_Cons)
  qed
qed

lemma re_sub_join: "re_sub_spaces (join [NL] ls) = join [NL] (map re_sub_spaces ls)"
proof (induction "[NL]" ls rule: join.induct)
  case 1
  then show ?case by simp
next
  case (2 l)
  then show ?case by simp
next
  case (3 l m ls)
  have "NL \<noteq> SP" by (simp add: NL_def SP_def)
  with 3 show ?case by (simp add: re_sub_append_nonsp)
qed

subsection \<open>The normalised text is its lines joined by single newlines\<close>

lemma clean_strip: "l \<in> set (split NL t) \<Longrightarrow> strip l \<noteq> [] \<Longrightarrow> clean_line (strip l)"
  using split_no_sep[of l NL t] strip_subset[of l]
  by (auto simp: clean_line_def strip_hd strip_last)

lemma clean_re_sub: "clean_line l \<Longrightarrow> clean_line (re_sub_spaces l)"
  using re_sub_set[of l]
  by (auto simp: clean_line_def re_sub_Nil_iff re_sub_hd re_sub_last)

lemma text_lines_clean: "l \<in> set (text_lines t) \<Longrightarrow> clean_line l"
  by (auto simp: text_lines_def intro!: clean_re_sub clean_strip)

lemma text_lines_no_double: "l \<in> set (text_lines t) \<Longrightarrow> \<not> adjacent SP SP l"
  by (auto simp: text_lines_def re_sub_no_double)

lemma join_clean_strip:
  assumes c: "\<forall>l\<in>set ls. clean_line l"
  shows "strip (join [NL] ls) = join [NL] ls"
proof (cases "ls = []")
  case True
  then show ?thesis by (simp add: strip_def)
next
  case False
  from c have ne: "\<forall>l\<in>set ls. l \<noteq> []" by (auto simp: clean_line_def)
  from False have "hd ls \<in> set ls" "last ls \<in> set ls" by auto
  with c have "clean_line (hd ls)" "clean_line (last ls)" by auto
  then have "\<not> isspace (hd (join [NL] ls))" "\<not> isspace (last (join [NL] ls))"
    using False ne by (auto simp: hd_join last_join clean_line_def)
  then show ?thesis by (simp add: strip_id)
qed

lemma normalize_text_lines: "normalize_text t = join [NL] (text_lines t)"
proof (cases "t = []")
  case True
  then show ?thesis by (simp add: normalize_text_def text_lines_def strip_def)
next
  case False
  then have "normalize_text t = strip (join [NL] (text_lines t))"
    by (simp add: normalize_text_def text_lines_def re_sub_join)
  then show ?thesis using text_lines_clean[of _ t] by (simp add: join_clean_strip)
qed

lemma split_normalize:
  assumes "normalize_text t \<noteq> []"
  shows "split NL (normalize_text t) = text_lines t"
proof -
  from assms have ne: "text_lines t \<noteq> []" by (auto simp: normalize_text_lines)
  have "\<forall>l\<in>set (text_lines t). NL \<notin> set l"
    using text_lines_clean[of _ t] by (auto simp: clean_line_def)
  with ne show ?thesis by (simp add: normalize_text_lines split_join)
qed

lemma adjacent_sep_tl_split: "adjacent sep sep s \<Longrightarrow> [] \<in> set (tl (split sep s))"
proof (induction s)
  case Nil
  then show ?case by (simp add: adjacent_Nil)
next
  case (Cons c cs)
  show ?case
  proof (cases "cs \<noteq> [] \<and> c = sep \<and> hd cs = sep")
    case True
    then obtain ds where "cs = sep # ds" by (cases cs) auto
    with True show ?thesis by simp
  next
    case False
    with Cons.prems have "adjacent sep sep cs" by (auto simp: adjacent_Cons)
    then have "[] \<in> set (tl (split sep cs))" by (rule Cons.IH)
    then show ?thesis
      by (cases "split sep cs") (auto split: if_splits)
  qed
qed

lemma adjacent_sep_empty_line: "adjacent sep sep s \<Longrightarrow> [] \<in> set (split sep s)"
  using adjacent_sep_tl_split[of sep s] split_not_Nil[of sep s]
  by (cases "split sep s") auto

lemma text_lines_fixed:
  assumes "normalize_text t \<noteq> []"
  shows "text_lines (normalize_text t) = text_lines t"
proof -
  have 1: "map strip (text_lines t) = text_lines t"
    using text_lines_clean[of _ t] by (auto simp: clean_line_def strip_id intro!: map_idI)
  have 2: "filter (\<lambda>line. line \<noteq> []) (text_lines t) = text_lines t"
    using text_lines_clean[of _ t] by (auto simp: clean_line_def intro!: filter_True)
  have 3: "map re_sub_spaces (text_lines t) = text_lines t"
    using text_lines_no_double[of _ t] by (auto simp: re_sub_id intro!: map_idI)
  have "text_lines (normalize_text t) =
        map re_sub_spaces (filter (\<lambda>line. line \<noteq> []) (map strip (text_lines t)))"
    unfolding text_lines_def[of "normalize_text t"] split_normalize[OF assms] ..
  then show ?thesis by (simp only: 1 2 3)
qed

text \<open>
  C6. For every input string, the output of \<open>normalize_text\<close> has no two consecutive
  newlines and no two consecutive spaces, is unchanged by \<open>strip\<close> (so it has no leading
  or trailing whitespace), and, when it is not empty, each of its lines is non-empty and
  has no whitespace at either end.
\<close>

theorem normalize_text_shape:
  "\<not> adjacent NL NL (normalize_text t) \<and>
   \<not> adjacent SP SP (normalize_text t) \<and>
   strip (normalize_text t) = normalize_text t \<and>
   (normalize_text t \<noteq> [] \<longrightarrow>
      (\<forall>l \<in> set (split NL (normalize_text t)). l \<noteq> [] \<and> strip l = l))"
proof (intro conjI impI ballI)
  show "\<not> adjacent SP SP (normalize_text t)"
    by (simp add: normalize_text_lines text_lines_def flip: re_sub_join) (rule re_sub_no_double)
  show "strip (normalize_text t) = normalize_text t"
    using text_lines_clean[of _ t] by (simp add: normalize_text_lines join_clean_strip)
  show "\<not> adjacent NL NL (normalize_text t)"
  proof
    assume a: "adjacent NL NL (normalize_text t)"
    then have ne: "normalize_text t \<noteq> []" by (auto simp: adjacent_Nil)
    from a have "[] \<in> set (split NL (normalize_text t))" by (rule adjacent_sep_empty_line)
    with ne have "[] \<in> set (text_lines t)" by (simp add: split_normalize)
    then have "clean_line []" by (rule text_lines_clean)
    then show False by (simp add: clean_line_def)
  qed
next
  fix l
  assume ne: "normalize_text t \<noteq> []" and "l \<in> set (split NL (normalize_text t))"
  then have "l \<in> set (text_lines t)" by (simp add: split_normalize)
  then have c: "clean_line l" by (rule text_lines_clean)
  then show "l \<noteq> []" by (simp add: clean_line_def)
  from c show "strip l = l" by (simp add: clean_line_def strip_id)
qed

theorem normalize_text_shape_witness:
  "normalize_text (str ''  a   b  '' @ [NL, NL, 9] @ str '' c  d '' @ [NL]) =
     str ''a b'' @ [NL] @ str ''c d'' \<and>
   list_all (\<lambda>l. l \<noteq> [] \<and> strip l = l)
     (split NL (normalize_text (str ''  a   b  '' @ [NL, NL, 9] @ str '' c  d '' @ [NL])))"
proof -
  let ?t = "str ''  a   b  '' @ [NL, NL, 9] @ str '' c  d '' @ [NL]"
  have v: "normalize_text ?t = str ''a b'' @ [NL] @ str ''c d''"
    by (simp add: normalize_text_def strip_def isspace_def NL_def SP_def)
  then have "normalize_text ?t \<noteq> []" by simp
  with normalize_text_shape[of ?t]
  have "\<forall>l \<in> set (split NL (normalize_text ?t)). l \<noteq> [] \<and> strip l = l" by blast
  then have "list_all (\<lambda>l. l \<noteq> [] \<and> strip l = l) (split NL (normalize_text ?t))"
    by (simp only: list_all_iff)
  with v show ?thesis by (intro conjI)
qed

text \<open>
  C7. Normalisation is idempotent: normalising a normalised text returns it unchanged.
\<close>

theorem normalize_text_idempotent: "normalize_text (normalize_text t) = normalize_text t"
proof (cases "normalize_text t = []")
  case True
  then show ?thesis by (simp add: normalize_text_def)
next
  case False
  then show ?thesis
    by (simp add: normalize_text_lines[of "normalize_text t"] text_lines_fixed)
       (simp add: normalize_text_lines)
qed

section \<open>Validation\<close>

lemmas path_defs = suffix_def stem_def path_name_def rfind_def DOT_def SLASH_def
  lower_def lower_char_def

text \<open>
  C3, as stated, fails: the extension is checked first, so an empty file with an
  unsupported extension is rejected for its type, not for being empty.
\<close>

theorem validate_file_empty_exe:
  "validate_file (str ''report.exe'') 0 =
     (False, Some (str ''Unsupported file type. Supported: ''
                     @ join (str '', '') SUPPORTED_EXTENSIONS)) \<and>
   validate_file (str ''report.exe'') 0 \<noteq> (False, Some (str ''File is empty''))"
  by (simp add: validate_file_def path_defs SUPPORTED_EXTENSIONS_def)

text \<open>
  C3, amended. For every filename whose extension, lowercased, is a supported one,
  \<open>validate_file\<close> rejects size 0 with the reason "File is empty"; for every filename whose
  extension is not supported it rejects with the "unsupported type" reason, whatever the
  size.
\<close>

theorem validate_file_empty:
  "(lower (suffix fname) \<in> set SUPPORTED_EXTENSIONS \<longrightarrow>
      validate_file fname 0 = (False, Some (str ''File is empty''))) \<and>
   (lower (suffix fname) \<notin> set SUPPORTED_EXTENSIONS \<longrightarrow>
      validate_file fname n =
        (False, Some (str ''Unsupported file type. Supported: ''
                        @ join (str '', '') SUPPORTED_EXTENSIONS)))"
  by (simp add: validate_file_def MAX_FILE_SIZE_BYTES_def)

theorem validate_file_empty_witness:
  "validate_file (str ''report.PDF'') 0 = (False, Some (str ''File is empty'')) \<and>
   validate_file (str ''report.exe'') 7 =
     (False, Some (str ''Unsupported file type. Supported: ''
                     @ join (str '', '') SUPPORTED_EXTENSIONS))"
proof -
  have 1: "lower (suffix (str ''report.PDF'')) \<in> set SUPPORTED_EXTENSIONS"
    by (simp add: path_defs SUPPORTED_EXTENSIONS_def)
  have 2: "lower (suffix (str ''report.exe'')) \<notin> set SUPPORTED_EXTENSIONS"
    by (simp add: path_defs SUPPORTED_EXTENSIONS_def)
  from 1 validate_file_empty[of "str ''report.PDF''"]
  have a: "validate_file (str ''report.PDF'') 0 = (False, Some (str ''File is empty''))"
    by blast
  from 2 validate_file_empty[of "str ''report.exe''" 7]
  have b: "validate_file (str ''report.exe'') 7 =
     (False, Some (str ''Unsupported file type. Supported: ''
                     @ join (str '', '') SUPPORTED_EXTENSIONS))"
    by blast
  from a b show ?thesis by (intro conjI)
qed

section \<open>Extraction\<close>

lemma pdf_pages_no_raise:
  "list_all (\<lambda>page. \<not> isl page) pages \<Longrightarrow>
   pdf_pages pages acc = Inr (acc @ filter (\<lambda>text. text \<noteq> []) (map projr pages))"
  by (induction pages arbitrary: acc) (auto split: sum.splits)

lemma pdf_pages_raise:
  "\<not> list_all (\<lambda>page. \<not> isl page) pages \<Longrightarrow> isl (pdf_pages pages acc)"
  by (induction pages arbitrary: acc) (auto split: sum.splits)

text \<open>
  C2, as stated, fails: when PyPDF2 returns without raising and finds no text, the result
  is the empty text and the fallback loader, which would have found text, is not used.
\<close>

theorem extract_text_from_pdf_empty_primary:
  "extract_text_from_pdf (Inr [Inr []]) (Inr [str ''text found by the loader'']) = Inr []"
  by (simp add: extract_text_from_pdf_def pdf_primary_def)

text \<open>
  C2, amended. The fallback loader is used exactly when the primary strategy raises (the
  reader cannot be built, or \<open>extract_text\<close> of some page raises). When the primary strategy
  returns, its result is the extraction result, whatever the loader would give and also
  when it is empty: the texts of the pages that have text, joined by blank lines. When it
  raises, the result is the loader's: its documents joined by blank lines, or the failure
  \<open>Failed to extract PDF text\<close> when the loader raises too.
\<close>

theorem extract_text_from_pdf_fallback:
  "(list_all (\<lambda>page. \<not> isl page) pages \<longrightarrow>
      extract_text_from_pdf (Inr pages) loader =
        Inr (join [NL, NL] (filter (\<lambda>text. text \<noteq> []) (map projr pages)))) \<and>
   (\<not> list_all (\<lambda>page. \<not> isl page) pages \<longrightarrow>
      extract_text_from_pdf (Inr pages) loader = extract_text_from_pdf (Inl e) loader) \<and>
   extract_text_from_pdf (Inl e) (Inr documents) = Inr (join [NL, NL] documents) \<and>
   extract_text_from_pdf (Inl e) (Inl fallback_error) =
     Inl (Exception (str ''Failed to extract PDF text: '' @ exn_str fallback_error))"
proof (intro conjI impI)
  assume "list_all (\<lambda>page. \<not> isl page) pages"
  then show "extract_text_from_pdf (Inr pages) loader =
        Inr (join [NL, NL] (filter (\<lambda>text. text \<noteq> []) (map projr pages)))"
    by (simp add: extract_text_from_pdf_def pdf_primary_def pdf_pages_no_raise)
next
  assume "\<not> list_all (\<lambda>page. \<not> isl page) pages"
  then have "isl (pdf_pages pages [])" by (rule pdf_pages_raise)
  then show "extract_text_from_pdf (Inr pages) loader = extract_text_from_pdf (Inl e) loader"
    by (cases "pdf_pages pages []") (simp_all add: extract_text_from_pdf_def pdf_primary_def)
qed (simp_all add: extract_text_from_pdf_def pdf_primary_def)

theorem extract_text_from_pdf_fallback_witness:
  "extract_text_from_pdf (Inr [Inr (str ''one''), Inr [], Inr (str ''two'')])
       (Inr [str ''unused'']) =
     Inr (str ''one'' @ [NL, NL] @ str ''two'') \<and>
   extract_text_from_pdf (Inr [Inr (str ''one''), Inl (Exception (str ''bad page''))])
       (Inr [str ''first'', str ''second'']) =
     Inr (str ''first'' @ [NL, NL] @ str ''second'')"
proof -
  let ?ok = "[Inr (str ''one''), Inr [], Inr (str ''two'')] :: (exn + pystr) list"
  let ?bad = "[Inr (str ''one''), Inl (Exception (str ''bad page''))] :: (exn + pystr) list"
  let ?docs = "[str ''first'', str ''second'']"
  have 1: "list_all (\<lambda>page. \<not> isl page) ?ok" by simp
  have 2: "\<not> list_all (\<lambda>page. \<not> isl page) ?bad" by simp
  from 1 extract_text_from_pdf_fallback[of ?ok "Inr [str ''unused'']"]
  have "extract_text_from_pdf (Inr ?ok) (Inr [str ''unused'']) =
        Inr (join [NL, NL] (filter (\<lambda>text. text \<noteq> []) (map projr ?ok)))"
    by blast
  then have a: "extract_text_from_pdf (Inr ?ok) (Inr [str ''unused'']) =
        Inr (str ''one'' @ [NL, NL] @ str ''two'')"
    by simp
  from 2 extract_text_from_pdf_fallback[of ?bad "Inr ?docs" "Exception []" ?docs]
  have "extract_text_from_pdf (Inr ?bad) (Inr ?docs) = Inr (join [NL, NL] ?docs)"
    by simp
  then have b: "extract_text_from_pdf (Inr ?bad) (Inr ?docs) =
        Inr (str ''first'' @ [NL, NL] @ str ''second'')"
    by simp
  from a b show ?thesis by (intro conjI)
qed

text \<open>
  C10. For every byte sequence, \<open>extract_text_from_txt\<close> returns a text and does not raise:
  the UTF-8 text, or else the Latin-1 text, which exists for every byte sequence. The
  retry list therefore always yields a text, and the result does not depend on the
  generic loader, whose branch and the failure after it are never taken. (The file is
  taken to be readable: the argument is its content.)
\<close>

theorem extract_text_from_txt_total:
  "extract_text_from_txt L content =
     Inr (case utf_8 L content of
            Some text \<Rightarrow> universal_newlines text
          | None \<Rightarrow> universal_newlines (map of_char content)) \<and>
   try_encodings L [LATIN_1, CP1252, ISO_8859_1] content =
     Some (universal_newlines (map of_char content)) \<and>
   extract_text_from_txt (L\<lparr>TextLoader := loader\<rparr>) content = extract_text_from_txt L content"
  by (simp add: extract_text_from_txt_def read_text_def split: option.splits)

section \<open>Temporary storage\<close>

lemma sweep_filter:
  "sweep now secs entries deleted =
     (filter (\<lambda>f. \<not> (is_file f \<and> now - st_mtime f > secs \<and> unlink_ok f)) entries,
      deleted + length (filter (\<lambda>f. is_file f \<and> now - st_mtime f > secs \<and> unlink_ok f) entries))"
  by (induction entries arbitrary: deleted) auto

lemma cleanup_old_files_filter:
  "cleanup_old_files now (Some entries) hours =
     (Some (filter (\<lambda>f. \<not> swept now hours f) entries),
      length (filter (swept now hours) entries))"
  unfolding cleanup_old_files_def sweep_filter swept_def by (simp add: Let_def)

text \<open>
  C8, as stated, fails: \<open>sweep(maxAge=0)\<close> does not delete every file. A regular file whose
  modification time is not before the clock reading of the sweep has an age that does not
  exceed 0 and stays; nothing is counted.
\<close>

theorem cleanup_old_files_keeps_future:
  "cleanup_old_files 1000 (Some [future_entry]) 0 = (Some [future_entry], 0)"
  by (simp add: cleanup_old_files_def future_entry_def)

text \<open>
  C8, amended. A sweep removes exactly the entries of the directory that are regular
  files, whose age (clock reading minus modification time) strictly exceeds the maximal
  age, and whose \<open>unlink\<close> succeeds; it returns their number. With maximal age 0 these are
  the regular files modified strictly before the clock reading whose \<open>unlink\<close> succeeds.
  A second sweep at the same clock reading removes nothing and returns 0.
\<close>

theorem cleanup_old_files_sweeps:
  "cleanup_old_files now (Some entries) hours =
     (Some (filter (\<lambda>f. \<not> swept now hours f) entries),
      length (filter (swept now hours) entries)) \<and>
   swept now 0 f = (is_file f \<and> st_mtime f < now \<and> unlink_ok f) \<and>
   cleanup_old_files now (fst (cleanup_old_files now (Some entries) hours)) hours =
     (fst (cleanup_old_files now (Some entries) hours), 0)"
proof (intro conjI)
  show "cleanup_old_files now (Some entries) hours =
     (Some (filter (\<lambda>f. \<not> swept now hours f) entries),
      length (filter (swept now hours) entries))"
    by (rule cleanup_old_files_filter)
  show "swept now 0 f = (is_file f \<and> st_mtime f < now \<and> unlink_ok f)"
    by (simp add: swept_def)
  have "filter (swept now hours) (filter (\<lambda>f. \<not> swept now hours f) entries) = []"
    by (simp add: filter_empty_conv)
  moreover have
    "filter (\<lambda>f. \<not> swept now hours f) (filter (\<lambda>f. \<not> swept now hours f) entries) =
     filter (\<lambda>f. \<not> swept now hours f) entries"
    by simp
  ultimately show
    "cleanup_old_files now (fst (cleanup_old_files now (Some entries) hours)) hours =
     (fst (cleanup_old_files now (Some entries) hours), 0)"
    by (simp add: cleanup_old_files_filter)
qed

lemmas storage_defs = process_uploaded_file_def save_upload_def cleanup_file_def upload_path_def
  UPLOADS_DIR_def

lemmas demo_defs = demo_libs_def demo_env_def locked_env_def

lemmas text_defs = extract_text_def extract_text_from_txt_def read_text_def normalize_text_def
  strip_def isspace_def NL_def SP_def CR_def

lemmas validate_defs = validate_file_def path_defs SUPPORTED_EXTENSIONS_def
  MAX_FILE_SIZE_BYTES_def

text \<open>
  C9, as stated, fails: when \<open>unlink\<close> raises, \<open>cleanup_file\<close> swallows the exception and
  the call returns normally with the saved file still in the uploads directory.
\<close>

theorem process_uploaded_file_unlink_raises:
  "fst (process_uploaded_file demo_libs locked_env Map.empty ''hello world'' (str ''a.txt'')
          True)
     (str ''uploads/a_20240101_120000.txt'') = Some ''hello world'' \<and>
   fst (projr (snd (process_uploaded_file demo_libs locked_env Map.empty ''hello world''
                      (str ''a.txt'') True))) = str ''hello world''"
  by (simp add: storage_defs demo_defs text_defs validate_defs Let_def)

text \<open>
  C9, amended. A call of \<open>process_uploaded_file\<close> with \<open>cleanup_after = true\<close> leaves every
  path other than the one it saves to as it was. When the file is valid, saving it
  succeeds and \<open>unlink\<close> succeeds, no file is left at the path it saved to when the call
  returns or raises, also when extraction fails. When instead \<open>unlink\<close> raises, the
  exception is swallowed: the saved file stays at that path with the uploaded content, and
  the call returns or raises exactly what it does when \<open>unlink\<close> succeeds.
\<close>

theorem process_uploaded_file_cleanup:
  assumes "process_uploaded_file L E fs content fname True = (fs', r)"
  shows "(\<forall>p. p \<noteq> upload_path E fname \<longrightarrow> fs' p = fs p) \<and>
         (fst (validate_file fname (int (length content))) \<and> open_raises E = None \<and>
          write_raises E = None \<and> unlink_raises E = None \<longrightarrow>
            fs' (upload_path E fname) = None) \<and>
         (fst (validate_file fname (int (length content))) \<and> open_raises E = None \<and>
          write_raises E = None \<and> unlink_raises E \<noteq> None \<longrightarrow>
            fs' (upload_path E fname) = Some content \<and>
            r = snd (process_uploaded_file L (E\<lparr>unlink_raises := None\<rparr>) fs content fname
                       True))"
proof (intro conjI)
  show "\<forall>p. p \<noteq> upload_path E fname \<longrightarrow> fs' p = fs p"
    using assms
    by (auto simp: process_uploaded_file_def save_upload_def cleanup_file_def Let_def
             split: prod.splits sum.splits option.splits bool.splits if_splits)
  show "fst (validate_file fname (int (length content))) \<and> open_raises E = None \<and>
          write_raises E = None \<and> unlink_raises E = None \<longrightarrow>
            fs' (upload_path E fname) = None"
    using assms
    by (auto simp: process_uploaded_file_def save_upload_def cleanup_file_def Let_def
             split: prod.splits sum.splits option.splits bool.splits if_splits)
  show "fst (validate_file fname (int (length content))) \<and> open_raises E = None \<and>
          write_raises E = None \<and> unlink_raises E \<noteq> None \<longrightarrow>
            fs' (upload_path E fname) = Some content \<and>
            r = snd (process_uploaded_file L (E\<lparr>unlink_raises := None\<rparr>) fs content fname
                       True)"
    using assms
    by (auto simp: process_uploaded_file_def save_upload_def cleanup_file_def upload_path_def
                   Let_def
             split: prod.splits sum.splits option.splits bool.splits if_splits)
qed

theorem process_uploaded_file_cleanup_witness:
  "fst (process_uploaded_file demo_libs demo_env [str ''uploads/keep.txt'' \<mapsto> ''old'']
          ''hello world'' (str ''a.pdf'') True)
     (upload_path demo_env (str ''a.pdf'')) = None \<and>
   fst (process_uploaded_file demo_libs demo_env [str ''uploads/keep.txt'' \<mapsto> ''old'']
          ''hello world'' (str ''a.pdf'') True)
     (str ''uploads/keep.txt'') = Some ''old'' \<and>
   isl (snd (process_uploaded_file demo_libs demo_env [str ''uploads/keep.txt'' \<mapsto> ''old'']
               ''hello world'' (str ''a.pdf'') True)) \<and>
   fst (process_uploaded_file demo_libs locked_env [str ''uploads/keep.txt'' \<mapsto> ''old'']
          ''hello world'' (str ''a.pdf'') True)
     (upload_path locked_env (str ''a.pdf'')) = Some ''hello world'' \<and>
   snd (process_uploaded_file demo_libs locked_env [str ''uploads/keep.txt'' \<mapsto> ''old'']
          ''hello world'' (str ''a.pdf'') True) =
   snd (process_uploaded_file demo_libs demo_env [str ''uploads/keep.txt'' \<mapsto> ''old'']
          ''hello world'' (str ''a.pdf'') True)"
proof -
  let ?fs = "[str ''uploads/keep.txt'' \<mapsto> ''old'']"
  let ?X = "process_uploaded_file demo_libs demo_env ?fs ''hello world'' (str ''a.pdf'') True"
  let ?Y = "process_uploaded_file demo_libs locked_env ?fs ''hello world'' (str ''a.pdf'') True"
  have eq: "?X = (fst ?X, snd ?X)" by simp
  have eqY: "?Y = (fst ?Y, snd ?Y)" by simp
  note th = process_uploaded_file_cleanup[OF eq]
  note thY = process_uploaded_file_cleanup[OF eqY]
  have v: "fst (validate_file (str ''a.pdf'') (int (length ''hello world'')))"
    by (simp add: validate_defs)
  have e: "open_raises demo_env = None" "write_raises demo_env = None"
    "unlink_raises demo_env = None"
    by (simp_all add: demo_env_def)
  have eY: "open_raises locked_env = None" "write_raises locked_env = None"
    "unlink_raises locked_env \<noteq> None"
    by (simp_all add: locked_env_def demo_env_def)
  have u: "locked_env\<lparr>unlink_raises := None\<rparr> = demo_env"
    by (simp add: locked_env_def demo_env_def)
  have ne: "str ''uploads/keep.txt'' \<noteq> upload_path demo_env (str ''a.pdf'')"
    by (simp add: upload_path_def UPLOADS_DIR_def demo_env_def path_defs)
  from th v e have a: "fst ?X (upload_path demo_env (str ''a.pdf'')) = None" by blast
  from th ne have "fst ?X (str ''uploads/keep.txt'') = ?fs (str ''uploads/keep.txt'')" by blast
  then have b: "fst ?X (str ''uploads/keep.txt'') = Some ''old''" by simp
  have c: "isl (snd ?X)"
    by (simp add: storage_defs demo_defs extract_text_def extract_text_from_pdf_def
          pdf_primary_def validate_defs Let_def)
  from thY v eY have
    d: "fst ?Y (upload_path locked_env (str ''a.pdf'')) = Some ''hello world''"
    and "snd ?Y = snd (process_uploaded_file demo_libs (locked_env\<lparr>unlink_raises := None\<rparr>) ?fs
                        ''hello world'' (str ''a.pdf'') True)"
    by blast+
  then have f: "snd ?Y = snd ?X" unfolding u by simp
  from a b c d f show ?thesis by (intro conjI)
qed

section \<open>The upload endpoint\<close>

lemma pipeline_after_extract:
  assumes "uf_read file = Inr content"
    and "process_uploaded_file L E fs content (or_default (uf_filename file) (str ''unknown.txt''))
           True = (fs', Inr (text, md))"
  shows "analyze_uploaded_document S L E fs file rcpt =
           (if length text < 50 then
              (fs', Inl (HTTPException 400
                           (str ''Insufficient text extracted ('' @ digits (length text)
                              @ str '' chars). Minimum 50 characters required.'')))
            else (fs', analyze_and_report S rcpt text md))"
  using assms by (simp add: analyze_uploaded_document_def)

lemma analyze_and_report_ok:
  assumes "analyze_document_async S text = Inr a"
    and "verdict_ok a"
  shows "\<exists>resp. analyze_and_report S rcpt text md = Inr resp \<and>
           risk_level (analysis resp) = risk_level a \<and>
           summary (analysis resp) = summary a \<and>
           list_of_flags (analysis resp) = list_of_flags a \<and>
           recommendations (analysis resp) = recommendations a \<and>
           total_flagged_amount (analysis resp) = total_flagged_amount a \<and>
           visualizations (analysis resp) = generate_visualizations S a \<and>
           email_sent (analysis resp) =
             send_email_report S rcpt a (generate_visualizations S a) (md_original_filename md)"
  using assms by (simp add: analyze_and_report_def build_response_def verdict_ok_def Let_def)


lemma extract_text_txt:
  "lower (suffix filepath) = str ''.txt'' \<Longrightarrow>
   extract_text L filepath content =
     Inr (normalize_text (case utf_8 L content of
            Some text \<Rightarrow> universal_newlines text
          | None \<Rightarrow> universal_newlines (map of_char content)))"
  by (simp add: extract_text_def extract_text_from_txt_def read_text_def Let_def
        split: option.splits)

lemma extract_text_pdf:
  "lower (suffix filepath) = str ''.pdf'' \<Longrightarrow>
   extract_text L filepath content =
     (case extract_text_from_pdf (PdfReader L content) (PyPDFLoader L content) of
        Inl e \<Rightarrow> Inl e
      | Inr extracted \<Rightarrow> Inr (normalize_text extracted))"
  by (simp add: extract_text_def Let_def)

lemma extract_text_docx:
  "lower (suffix filepath) = str ''.docx'' \<Longrightarrow>
   extract_text L filepath content =
     (case extract_text_from_docx (DocxDocument L content) (Docx2txtLoader L content) of
        Inl e \<Rightarrow> Inl e
      | Inr extracted \<Rightarrow> Inr (normalize_text extracted))"
  by (simp add: extract_text_def Let_def)

lemmas pipeline_demo_defs = demo_file_def short_file_def demo_services_def raising_services_def
  demo_analysis_def or_default_def

lemma demo_process:
  "\<exists>text md. process_uploaded_file demo_libs demo_env Map.empty
       ''Invoice 42: payment of 1000 USD to ACME Corp. approved twice.''
       (str ''invoice.txt'') True = (Map.empty, Inr (text, md)) \<and>
     \<not> length text < 50 \<and> md_original_filename md = str ''invoice.txt''"
  by (simp add: storage_defs demo_defs text_defs validate_defs Let_def)

text \<open>
  C4. When the upload is read, validated and extracted, and the normalised text is shorter
  than 50 characters, the handler raises the 400 error "Insufficient text extracted",
  whatever the services are: the analyzer is not reached. The files are as
  \<open>process_uploaded_file\<close> left them. The extractor itself has no length check: for a
  text file \<open>extract_text\<close> returns the normalised text, of any length; for a PDF and for
  a DOCX file it returns the normalised text of whatever the format's strategies return,
  of any length, and fails only when they fail.
\<close>

theorem short_text_aborts:
  assumes "uf_read file = Inr content"
    and "process_uploaded_file L E fs content (or_default (uf_filename file) (str ''unknown.txt''))
           True = (fs', Inr (text, md))"
    and "length text < 50"
  shows "analyze_uploaded_document S L E fs file rcpt =
           (fs', Inl (HTTPException 400
                        (str ''Insufficient text extracted ('' @ digits (length text)
                           @ str '' chars). Minimum 50 characters required.''))) \<and>
         (lower (suffix filepath) = str ''.txt'' \<longrightarrow>
            extract_text L filepath bs =
              Inr (normalize_text (case utf_8 L bs of
                     Some decoded \<Rightarrow> universal_newlines decoded
                   | None \<Rightarrow> universal_newlines (map of_char bs)))) \<and>
         (lower (suffix filepath) = str ''.pdf'' \<longrightarrow>
            extract_text L filepath bs =
              (case extract_text_from_pdf (PdfReader L bs) (PyPDFLoader L bs) of
                 Inl e \<Rightarrow> Inl e
               | Inr extracted \<Rightarrow> Inr (normalize_text extracted))) \<and>
         (lower (suffix filepath) = str ''.docx'' \<longrightarrow>
            extract_text L filepath bs =
              (case extract_text_from_docx (DocxDocument L bs) (Docx2txtLoader L bs) of
                 Inl e \<Rightarrow> Inl e
               | Inr extracted \<Rightarrow> Inr (normalize_text extracted)))"
  using pipeline_after_extract[OF assms(1,2)] assms(3) extract_text_txt[of filepath L bs]
    extract_text_pdf[of filepath L bs] extract_text_docx[of filepath L bs]
  by simp

theorem short_text_aborts_witness:
  "process_uploaded_file demo_libs demo_env Map.empty ''hi  there'' (str ''note.txt'') True =
     (Map.empty,
      Inr (str ''hi there'',
           \<lparr>md_original_filename = str ''note.txt'',
            md_file_type = str ''.txt'',
            md_file_size_bytes = 9,
            md_extracted_length = 8,
            md_extraction_timestamp = str ''2024-01-01T12:00:00''\<rparr>)) \<and>
   analyze_uploaded_document demo_services demo_libs demo_env Map.empty short_file None =
     (Map.empty,
      Inl (HTTPException 400
             (str ''Insufficient text extracted (8 chars). Minimum 50 characters required.''))) \<and>
   extract_text demo_libs (str ''uploads/note_20240101_120000.txt'') ''hi  there'' =
     Inr (str ''hi there'') \<and>
   extract_text short_libs (str ''uploads/scan_20240101_120000.pdf'') ''hi  there'' =
     Inr (str ''short pdf'') \<and>
   extract_text short_libs (str ''uploads/memo_20240101_120000.docx'') ''hi  there'' =
     Inr (str ''short docx'')"
proof -
  let ?md = "\<lparr>md_original_filename = str ''note.txt'',
            md_file_type = str ''.txt'',
            md_file_size_bytes = 9,
            md_extracted_length = 8,
            md_extraction_timestamp = str ''2024-01-01T12:00:00''\<rparr>"
  let ?path = "str ''uploads/note_20240101_120000.txt''"
  let ?pdf = "str ''uploads/scan_20240101_120000.pdf''"
  let ?docx = "str ''uploads/memo_20240101_120000.docx''"
  have r: "uf_read short_file = Inr ''hi  there''" by (simp add: short_file_def)
  have n: "or_default (uf_filename short_file) (str ''unknown.txt'') = str ''note.txt''"
    by (simp add: short_file_def or_default_def)
  have p: "process_uploaded_file demo_libs demo_env Map.empty ''hi  there'' (str ''note.txt'')
             True = (Map.empty, Inr (str ''hi there'', ?md))"
    by (simp add: storage_defs demo_defs text_defs validate_defs Let_def)
  have p': "process_uploaded_file short_libs demo_env Map.empty ''hi  there'' (str ''note.txt'')
             True = (Map.empty, Inr (str ''hi there'', ?md))"
    by (simp add: storage_defs demo_defs short_libs_def text_defs validate_defs Let_def)
  have l: "length (str ''hi there'') < 50" by simp
  have d: "digits (length (str ''hi there'')) = str ''8''" by simp
  have x: "lower (suffix ?path) = str ''.txt''" by (simp add: path_defs)
  have x_pdf: "lower (suffix ?pdf) = str ''.pdf''" by (simp add: path_defs)
  have x_docx: "lower (suffix ?docx) = str ''.docx''" by (simp add: path_defs)
  have u: "normalize_text (case utf_8 demo_libs ''hi  there'' of
                     Some decoded \<Rightarrow> universal_newlines decoded
                   | None \<Rightarrow> universal_newlines (map of_char ''hi  there'')) = str ''hi there''"
    by (simp add: demo_libs_def normalize_text_def strip_def isspace_def NL_def SP_def CR_def)
  have u_pdf:
    "(case extract_text_from_pdf (PdfReader short_libs ''hi  there'')
             (PyPDFLoader short_libs ''hi  there'') of
        Inl e \<Rightarrow> Inl e
      | Inr extracted \<Rightarrow> Inr (normalize_text extracted)) = Inr (str ''short pdf'')"
    by (simp add: short_libs_def demo_libs_def extract_text_from_pdf_def pdf_primary_def
          normalize_text_def strip_def isspace_def NL_def SP_def)
  have u_docx:
    "(case extract_text_from_docx (DocxDocument short_libs ''hi  there'')
             (Docx2txtLoader short_libs ''hi  there'') of
        Inl e \<Rightarrow> Inl e
      | Inr extracted \<Rightarrow> Inr (normalize_text extracted)) = Inr (str ''short docx'')"
    by (simp add: short_libs_def demo_libs_def extract_text_from_docx_def
          normalize_text_def strip_def isspace_def NL_def SP_def)
  note th = short_text_aborts[of short_file "''hi  there''" demo_libs demo_env Map.empty
      Map.empty "str ''hi there''" ?md demo_services None ?path "''hi  there''",
      unfolded n, OF r p l]
  note th_pdf = short_text_aborts[of short_file "''hi  there''" short_libs demo_env Map.empty
      Map.empty "str ''hi there''" ?md demo_services None ?pdf "''hi  there''",
      unfolded n, OF r p' l]
  note th_docx = short_text_aborts[of short_file "''hi  there''" short_libs demo_env Map.empty
      Map.empty "str ''hi there''" ?md demo_services None ?docx "''hi  there''",
      unfolded n, OF r p' l]
  from th[THEN conjunct1]
  have "analyze_uploaded_document demo_services demo_libs demo_env Map.empty short_file None =
     (Map.empty,
      Inl (HTTPException 400
             (str ''Insufficient text extracted ('' @ digits (length (str ''hi there''))
                @ str '' chars). Minimum 50 characters required.'')))" .
  then have a: "analyze_uploaded_document demo_services demo_libs demo_env Map.empty short_file
      None =
     (Map.empty,
      Inl (HTTPException 400
             (str ''Insufficient text extracted (8 chars). Minimum 50 characters required.'')))"
    unfolding d by simp
  from th[THEN conjunct2, THEN conjunct1] x
  have "extract_text demo_libs ?path ''hi  there'' =
     Inr (normalize_text (case utf_8 demo_libs ''hi  there'' of
                     Some decoded \<Rightarrow> universal_newlines decoded
                   | None \<Rightarrow> universal_newlines (map of_char ''hi  there'')))"
    by blast
  then have b: "extract_text demo_libs ?path ''hi  there'' = Inr (str ''hi there'')"
    unfolding u .
  from th_pdf[THEN conjunct2, THEN conjunct2, THEN conjunct1] x_pdf
  have "extract_text short_libs ?pdf ''hi  there'' =
     (case extract_text_from_pdf (PdfReader short_libs ''hi  there'')
             (PyPDFLoader short_libs ''hi  there'') of
        Inl e \<Rightarrow> Inl e
      | Inr extracted \<Rightarrow> Inr (normalize_text extracted))"
    by blast
  then have c: "extract_text short_libs ?pdf ''hi  there'' = Inr (str ''short pdf'')"
    unfolding u_pdf .
  from th_docx[THEN conjunct2, THEN conjunct2, THEN conjunct2] x_docx
  have "extract_text short_libs ?docx ''hi  there'' =
     (case extract_text_from_docx (DocxDocument short_libs ''hi  there'')
             (Docx2txtLoader short_libs ''hi  there'') of
        Inl e \<Rightarrow> Inl e
      | Inr extracted \<Rightarrow> Inr (normalize_text extracted))"
    by blast
  then have e: "extract_text short_libs ?docx ''hi  there'' = Inr (str ''short docx'')"
    unfolding u_docx .
  from p a b c e show ?thesis by (intro conjI)
qed

text \<open>
  C1. When the analyzer has returned a verdict (well-formed: the confidence of each flag
  lies between 0 and 1) and the renderer raises, the handler returns a response: its
  analysis carries the risk level, summary, flags, recommendations and total of the
  analyzer's result, and its \<open>visualizations\<close> field is \<open>None\<close>.
\<close>

theorem visualize_failure_contained:
  assumes "uf_read file = Inr content"
    and "process_uploaded_file L E fs content (or_default (uf_filename file) (str ''unknown.txt''))
           True = (fs', Inr (text, md))"
    and "\<not> length text < 50"
    and "analyze_document_async S text = Inr a"
    and "verdict_ok a"
    and "create_comprehensive_dashboard S a = Inl viz_error"
  shows "\<exists>resp. analyze_uploaded_document S L E fs file rcpt = (fs', Inr resp) \<and>
           visualizations (analysis resp) = None \<and>
           risk_level (analysis resp) = risk_level a \<and>
           summary (analysis resp) = summary a \<and>
           list_of_flags (analysis resp) = list_of_flags a \<and>
           recommendations (analysis resp) = recommendations a \<and>
           total_flagged_amount (analysis resp) = total_flagged_amount a"
proof -
  from analyze_and_report_ok[OF assms(4,5), of rcpt md] obtain resp where
    r: "analyze_and_report S rcpt text md = Inr resp"
       "risk_level (analysis resp) = risk_level a"
       "summary (analysis resp) = summary a"
       "list_of_flags (analysis resp) = list_of_flags a"
       "recommendations (analysis resp) = recommendations a"
       "total_flagged_amount (analysis resp) = total_flagged_amount a"
       "visualizations (analysis resp) = generate_visualizations S a"
    by blast
  have "generate_visualizations S a = None"
    using assms(6) by (simp add: generate_visualizations_def)
  with r pipeline_after_extract[OF assms(1,2), of S rcpt] assms(3) show ?thesis by simp
qed


lemma demo_file_facts:
  "uf_read demo_file = Inr ''Invoice 42: payment of 1000 USD to ACME Corp. approved twice.''"
  "or_default (uf_filename demo_file) (str ''unknown.txt'') = str ''invoice.txt''"
  by (simp_all add: demo_file_def or_default_def)

lemma demo_analysis_flags: "verdict_ok demo_analysis"
  by (simp add: verdict_ok_def demo_analysis_def)

theorem visualize_failure_contained_witness:
  "\<exists>resp. analyze_uploaded_document demo_services demo_libs demo_env Map.empty demo_file None =
            (Map.empty, Inr resp) \<and>
          visualizations (analysis resp) = None \<and>
          risk_level (analysis resp) = str ''High''"
proof -
  from demo_process obtain extracted md where
    p: "process_uploaded_file demo_libs demo_env Map.empty
          ''Invoice 42: payment of 1000 USD to ACME Corp. approved twice.''
          (str ''invoice.txt'') True = (Map.empty, Inr (extracted, md))"
    and l: "\<not> length extracted < 50"
    by blast
  have a: "analyze_document_async demo_services extracted = Inr demo_analysis"
    by (simp add: demo_services_def)
  have v: "create_comprehensive_dashboard demo_services demo_analysis =
             Inl (Exception (str ''renderer unavailable''))"
    by (simp add: demo_services_def)
  have h: "risk_level demo_analysis = str ''High''" by (simp add: demo_analysis_def)
  from visualize_failure_contained[of demo_file _ demo_libs demo_env Map.empty Map.empty extracted md
      demo_services demo_analysis _ None, unfolded demo_file_facts(2),
      OF demo_file_facts(1) p l a demo_analysis_flags v]
  show ?thesis unfolding h by blast
qed

text \<open>
  C5. When the analyzer has returned a well-formed verdict, the handler returns a response,
  and
  \<^item> if a recipient is given and the mailer raises, \<open>email_sent\<close> is the status with
    \<open>success = False\<close>, the recipient and \<open>error = str(exception)\<close>;
  \<^item> if a recipient is given and the mailer returns a result whose \<open>success\<close> is \<open>False\<close>,
    \<open>email_sent\<close> has \<open>success = False\<close>, the recipient, and as \<open>error\<close> the mailer's
    \<open>error\<close> entry (\<open>None\<close> if the mailer gave none);
  \<^item> if no recipient is given (\<open>None\<close> or the empty string), \<open>email_sent\<close> is \<open>None\<close>.
\<close>

theorem notify_failure_contained:
  assumes "uf_read file = Inr content"
    and "process_uploaded_file L E fs content (or_default (uf_filename file) (str ''unknown.txt''))
           True = (fs', Inr (text, md))"
    and "\<not> length text < 50"
    and "analyze_document_async S text = Inr a"
    and "verdict_ok a"
  shows "\<exists>resp. analyze_uploaded_document S L E fs file rcpt = (fs', Inr resp) \<and>
           (\<forall>r err. rcpt = Some r \<and> r \<noteq> [] \<and>
               send_analysis_report_async S r a (generate_visualizations S a)
                 (md_original_filename md) = Inl err \<longrightarrow>
               email_sent (analysis resp) =
                 Some [str ''success'' \<mapsto> PBool False,
                       str ''recipient'' \<mapsto> PStr r,
                       str ''error'' \<mapsto> PStr (exn_str err)]) \<and>
           (\<forall>r res. rcpt = Some r \<and> r \<noteq> [] \<and>
               send_analysis_report_async S r a (generate_visualizations S a)
                 (md_original_filename md) = Inr res \<and>
               res (str ''success'') = Some (PBool False) \<longrightarrow>
               (\<exists>st. email_sent (analysis resp) = Some st \<and>
                  st (str ''success'') = Some (PBool False) \<and>
                  st (str ''recipient'') = Some (PStr r) \<and>
                  st (str ''error'') =
                    Some (case res (str ''error'') of Some e \<Rightarrow> e | None \<Rightarrow> PNone))) \<and>
           (rcpt = None \<or> rcpt = Some [] \<longrightarrow> email_sent (analysis resp) = None)"
proof -
  from analyze_and_report_ok[OF assms(4,5), of rcpt md] obtain resp where
    r: "analyze_and_report S rcpt text md = Inr resp"
    and e: "email_sent (analysis resp) =
       send_email_report S rcpt a (generate_visualizations S a) (md_original_filename md)"
    by blast
  have 1: "analyze_uploaded_document S L E fs file rcpt = (fs', Inr resp)"
    using r pipeline_after_extract[OF assms(1,2), of S rcpt] assms(3) by simp
  have 2: "\<forall>r err. rcpt = Some r \<and> r \<noteq> [] \<and>
               send_analysis_report_async S r a (generate_visualizations S a)
                 (md_original_filename md) = Inl err \<longrightarrow>
               email_sent (analysis resp) =
                 Some [str ''success'' \<mapsto> PBool False,
                       str ''recipient'' \<mapsto> PStr r,
                       str ''error'' \<mapsto> PStr (exn_str err)]"
    unfolding e by (simp add: send_email_report_def)
  have 3: "\<forall>r res. rcpt = Some r \<and> r \<noteq> [] \<and>
               send_analysis_report_async S r a (generate_visualizations S a)
                 (md_original_filename md) = Inr res \<and>
               res (str ''success'') = Some (PBool False) \<longrightarrow>
               (\<exists>st. email_sent (analysis resp) = Some st \<and>
                  st (str ''success'') = Some (PBool False) \<and>
                  st (str ''recipient'') = Some (PStr r) \<and>
                  st (str ''error'') =
                    Some (case res (str ''error'') of Some e \<Rightarrow> e | None \<Rightarrow> PNone))"
    unfolding e by (simp add: send_email_report_def)
  have 4: "rcpt = None \<or> rcpt = Some [] \<longrightarrow> email_sent (analysis resp) = None"
    unfolding e by (auto simp: send_email_report_def)
  from 1 2 3 4 show ?thesis by blast
qed


theorem notify_failure_contained_witness:
  "(\<exists>resp. analyze_uploaded_document demo_services demo_libs demo_env Map.empty demo_file
             (Some (str ''auditor@example.org'')) = (Map.empty, Inr resp) \<and>
           (\<exists>st. email_sent (analysis resp) = Some st \<and>
              st (str ''success'') = Some (PBool False) \<and>
              st (str ''error'') = Some (PStr (str ''SMTP refused'')))) \<and>
   (\<exists>resp. analyze_uploaded_document raising_services demo_libs demo_env Map.empty demo_file
             (Some (str ''auditor@example.org'')) = (Map.empty, Inr resp) \<and>
           email_sent (analysis resp) =
             Some [str ''success'' \<mapsto> PBool False,
                   str ''recipient'' \<mapsto> PStr (str ''auditor@example.org''),
                   str ''error'' \<mapsto> PStr (str ''connection timed out'')]) \<and>
   (\<exists>resp. analyze_uploaded_document demo_services demo_libs demo_env Map.empty demo_file None =
             (Map.empty, Inr resp) \<and>
           email_sent (analysis resp) = None)"
proof -
  let ?r = "str ''auditor@example.org''"
  from demo_process obtain extracted md where
    p: "process_uploaded_file demo_libs demo_env Map.empty
          ''Invoice 42: payment of 1000 USD to ACME Corp. approved twice.''
          (str ''invoice.txt'') True = (Map.empty, Inr (extracted, md))"
    and l: "\<not> length extracted < 50"
    by blast
  have a: "analyze_document_async demo_services extracted = Inr demo_analysis"
    "analyze_document_async raising_services extracted = Inr demo_analysis"
    by (simp_all add: demo_services_def raising_services_def)
  let ?res = "[str ''success'' \<mapsto> PBool False, str ''error'' \<mapsto> PStr (str ''SMTP refused'')]"
  have s1: "send_analysis_report_async demo_services ?r demo_analysis
              (generate_visualizations demo_services demo_analysis) (md_original_filename md) =
            Inr ?res"
    by (simp add: demo_services_def)
  have s1': "?res (str ''success'') = Some (PBool False)"
    "(case ?res (str ''error'') of Some e \<Rightarrow> e | None \<Rightarrow> PNone) = PStr (str ''SMTP refused'')"
    by simp_all
  have s2: "send_analysis_report_async raising_services ?r demo_analysis
              (generate_visualizations raising_services demo_analysis)
              (md_original_filename md) =
            Inl (Exception (str ''connection timed out''))"
    by (simp add: demo_services_def raising_services_def)
  have ne: "?r \<noteq> []" by simp
  from notify_failure_contained[of demo_file _ demo_libs demo_env Map.empty Map.empty extracted
      md demo_services demo_analysis "Some ?r", unfolded demo_file_facts(2),
      OF demo_file_facts(1) p l a(1) demo_analysis_flags]
  obtain resp1 where
    r1: "analyze_uploaded_document demo_services demo_libs demo_env Map.empty demo_file
           (Some ?r) = (Map.empty, Inr resp1)"
    and e1: "\<forall>r res. Some ?r = Some r \<and> r \<noteq> [] \<and>
               send_analysis_report_async demo_services r demo_analysis
                 (generate_visualizations demo_services demo_analysis)
                 (md_original_filename md) = Inr res \<and>
               res (str ''success'') = Some (PBool False) \<longrightarrow>
               (\<exists>st. email_sent (analysis resp1) = Some st \<and>
                  st (str ''success'') = Some (PBool False) \<and>
                  st (str ''recipient'') = Some (PStr r) \<and>
                  st (str ''error'') =
                    Some (case res (str ''error'') of Some e \<Rightarrow> e | None \<Rightarrow> PNone))"
    by blast
  from e1 s1 s1'(1) ne obtain st where
    "email_sent (analysis resp1) = Some st" "st (str ''success'') = Some (PBool False)"
    "st (str ''error'') = Some (case ?res (str ''error'') of Some e \<Rightarrow> e | None \<Rightarrow> PNone)"
    by blast
  then have c1: "\<exists>st. email_sent (analysis resp1) = Some st \<and>
              st (str ''success'') = Some (PBool False) \<and>
              st (str ''error'') = Some (PStr (str ''SMTP refused''))"
    unfolding s1'(2) by blast
  from notify_failure_contained[of demo_file _ demo_libs demo_env Map.empty Map.empty extracted
      md raising_services demo_analysis "Some ?r", unfolded demo_file_facts(2),
      OF demo_file_facts(1) p l a(2) demo_analysis_flags]
  obtain resp2 where
    r2: "analyze_uploaded_document raising_services demo_libs demo_env Map.empty demo_file
           (Some ?r) = (Map.empty, Inr resp2)"
    and e2: "\<forall>r err. Some ?r = Some r \<and> r \<noteq> [] \<and>
               send_analysis_report_async raising_services r demo_analysis
                 (generate_visualizations raising_services demo_analysis)
                 (md_original_filename md) = Inl err \<longrightarrow>
               email_sent (analysis resp2) =
                 Some [str ''success'' \<mapsto> PBool False,
                       str ''recipient'' \<mapsto> PStr r,
                       str ''error'' \<mapsto> PStr (exn_str err)]"
    by blast
  from e2 s2 ne have "email_sent (analysis resp2) =
                 Some [str ''success'' \<mapsto> PBool False,
                       str ''recipient'' \<mapsto> PStr ?r,
                       str ''error'' \<mapsto> PStr (exn_str (Exception (str ''connection timed out'')))]"
    by blast
  then have c2: "email_sent (analysis resp2) =
             Some [str ''success'' \<mapsto> PBool False,
                   str ''recipient'' \<mapsto> PStr ?r,
                   str ''error'' \<mapsto> PStr (str ''connection timed out'')]"
    by simp
  from notify_failure_contained[of demo_file _ demo_libs demo_env Map.empty Map.empty extracted
      md demo_services demo_analysis None, unfolded demo_file_facts(2),
      OF demo_file_facts(1) p l a(1) demo_analysis_flags]
  obtain resp3 where
    r3: "analyze_uploaded_document demo_services demo_libs demo_env Map.empty demo_file None =
           (Map.empty, Inr resp3)"
    and c3: "email_sent (analysis resp3) = None"
    by blast
  from r1 c1 r2 c2 r3 c3 show ?thesis by blast
qed


end
